theory Spec2Isabelle
  imports
    Complex_Main
    "HOL-Library.Char_ord"
    "HOL-Library.List_Lexorder"
    "HOL-Library.Product_Lexorder"
begin

section \<open>The double-entry accounting engine of ym-constructions-backend\<close>

text \<open>
  A shallow embedding of the accounting core: the journal entry model
  (\<^verbatim>\<open>models/JournalEntry.js\<close>), the general ledger model with its statement queries
  (the model \<^verbatim>\<open>GeneralLedger\<close>, whose source follows the chart of accounts model in
  \<^verbatim>\<open>models/ChartOfAccount.js\<close>), the accounting service (the class
  \<^verbatim>\<open>AccountingService\<close>, which the controllers require as
  \<^verbatim>\<open>services/accountingService\<close>) and the maintenance script that recalculates the
  stored balances of the ledger.

  Conventions of the embedding.
  \<^item> A JavaScript \<^verbatim>\<open>Number\<close> that holds an amount is a rational: sums and differences
    are exact, where the code rounds to a double. The tolerance \<^verbatim>\<open>0.01\<close> is \<open>1/100\<close>.
    Every concrete amount below is an integer, which a double holds exactly, and nothing
    is stated about an amount at the boundary of the tolerance.
  \<^item> A \<^verbatim>\<open>Date\<close> is its time value, the milliseconds since the epoch, an \<open>int\<close>.
    \<^verbatim>\<open>getFullYear\<close>, \<^verbatim>\<open>getMonth\<close> and \<^verbatim>\<open>new Date(year, 0, 1)\<close> read the
    proleptic Gregorian calendar in the local time of the process, which is UTC shifted by
    the offset \<open>rt_offset\<close> of the run time (a fixed offset: no daylight saving).
  \<^item> An \<^verbatim>\<open>ObjectId\<close> is a natural number; the one generated for a new document is the
    parameter \<open>rt_id\<close>. \<^verbatim>\<open>undefined\<close> is \<open>None\<close>. \<^verbatim>\<open>new Date()\<close> is \<open>rt_now\<close>.
  \<^item> A collection is the list of its documents in insertion order; the database is a
    record of the three collections the accounting core uses.
  \<^item> A thrown error is the \<open>Inl\<close> of a sum. Every operation that writes returns the
    database it leaves behind, also when it throws.
  \<^item> The validators that the schemas declare (\<^verbatim>\<open>required\<close>, \<^verbatim>\<open>min\<close>, \<^verbatim>\<open>max\<close>,
    \<^verbatim>\<open>validate\<close>) and the setter \<^verbatim>\<open>trim\<close> are part of the model: a document is
    validated before its pre-save hooks run, \<^verbatim>\<open>insertMany\<close> validates every document and
    runs no save hook, and a document that fails is not written. A validation error names
    the model and the paths that failed. The store itself (connection, commit) does not
    fail.
\<close>

subsection \<open>Data model\<close>

type_synonym object_id = nat
type_synonym js_date = int
type_synonym amount = rat

datatype account_type = Asset | Liability | Equity | Revenue | Expense

datatype transaction_type =
  Sale | Purchase | Payment | Receipt | Journal | Opening_Balance | Adjustment | Booking

datatype source_model =
  Src_SalesInvoice | Src_Purchase | Src_BankPayment | Src_CashPayment | Src_Plot | Src_Manual

datatype entry_status = Draft | Posted | Reversed | Cancelled

datatype ledger_status = Active | Row_Reversed | Row_Cancelled

record source_transaction =
  src_model :: "source_model option"
  src_id :: "object_id option"
  src_reference :: "string option"

text \<open>A line as a caller passes it: \<^verbatim>\<open>debit\<close> and \<^verbatim>\<open>credit\<close> may be missing.\<close>

record line_input =
  li_account :: object_id
  li_accountCode :: string
  li_accountName :: string
  li_accountType :: account_type
  li_debit :: "amount option"
  li_credit :: "amount option"
  li_description :: "string option"

text \<open>A line of a journal entry document (\<^verbatim>\<open>JournalEntryLineSchema\<close>): the schema's
  default \<^verbatim>\<open>0\<close> has filled a missing amount, and the strings are trimmed.\<close>

record je_line =
  l_account :: object_id
  l_accountCode :: string
  l_accountName :: string
  l_accountType :: account_type
  l_debit :: amount
  l_credit :: amount
  l_description :: "string option"

text \<open>The data a caller passes to \<^verbatim>\<open>createJournalEntry\<close>.\<close>

record entry_data =
  ed_tenantId :: "string option"
  ed_entryNumber :: "string option"
  ed_date :: "js_date option"
  ed_transactionType :: transaction_type
  ed_sourceTransaction :: "source_transaction option"
  ed_project :: "object_id option"
  ed_description :: string
  ed_lines :: "line_input list"

text \<open>A journal entry document (\<^verbatim>\<open>JournalEntrySchema\<close>). The totals are missing on a
  document that was built without them.\<close>

record journal_entry =
  je_id :: object_id
  je_tenantId :: "string option"
  je_entryNumber :: "string option"
  je_date :: js_date
  je_transactionType :: transaction_type
  je_sourceTransaction :: "source_transaction option"
  je_project :: "object_id option"
  je_description :: string
  je_lines :: "je_line list"
  je_totalDebit :: "amount option"
  je_totalCredit :: "amount option"
  je_status :: entry_status
  je_isPosted :: bool
  je_postedAt :: "js_date option"
  je_reversedBy :: "object_id option"
  je_reversalOf :: "object_id option"
  je_createdBy :: object_id
  je_createdAt :: js_date

text \<open>A general ledger row (\<^verbatim>\<open>GeneralLedgerSchema\<close>).\<close>

record gl_row =
  gl_tenantId :: "string option"
  gl_account :: object_id
  gl_accountCode :: string
  gl_accountName :: string
  gl_accountType :: account_type
  gl_date :: js_date
  gl_journalEntry :: object_id
  gl_entryNumber :: "string option"
  gl_description :: string
  gl_transactionType :: transaction_type
  gl_project :: "object_id option"
  gl_debit :: amount
  gl_credit :: amount
  gl_balance :: amount
  gl_sourceTransaction :: "source_transaction option"
  gl_fiscalYear :: "int option"
  gl_fiscalPeriod :: "int option"
  gl_status :: ledger_status
  gl_createdAt :: js_date

text \<open>An account of the chart of accounts (\<^verbatim>\<open>ChartOfAccountSchema\<close>); a sub-account is
  a pair of code and type, a list account a pair of code and name.\<close>

record chart_account =
  ca_id :: object_id
  ca_tenantId :: "string option"
  ca_code :: "string option"
  ca_name :: "string option"
  ca_accountType :: "account_type option"
  ca_mainAccountType :: "object_id option"
  ca_mainTypeCode :: "string option"
  ca_mainAccountTypeText :: "string option"
  ca_financialComponent :: "string option"
  ca_subAccounts :: "(string \<times> string) list"
  ca_listAccounts :: "(string \<times> string) list"

record db =
  journalEntries :: "journal_entry list"
  generalLedger :: "gl_row list"
  chartOfAccounts :: "chart_account list"

text \<open>What an operation reads from the process it runs in: the offset of the local time
  from UTC in milliseconds, the clock, and the \<^verbatim>\<open>ObjectId\<close> generated for the document
  the operation creates.\<close>

record runtime =
  rt_offset :: int
  rt_now :: js_date
  rt_id :: object_id

text \<open>The errors: the three that the first pre-save hook and \<^verbatim>\<open>createJournalEntry\<close>
  throw, the two of \<^verbatim>\<open>reverseJournalEntry\<close> and \<^verbatim>\<open>reverse\<close>, and the validation
  error of a model, with the paths that failed.\<close>

datatype error =
  NotBalanced amount amount
  | BothDebitAndCredit string
  | NeitherDebitNorCredit string
  | EntryNotFound
  | OnlyPostedCanBeReversed
  | ValidationError string "string list"

subsection \<open>JavaScript built-ins\<close>

text \<open>\<^verbatim>\<open>x || 0\<close> on an amount that may be missing.\<close>

definition or0 :: "amount option \<Rightarrow> amount" where
  "or0 x = (case x of None \<Rightarrow> 0 | Some v \<Rightarrow> (if v = 0 then 0 else v))"

text \<open>The civil date of a day number (days since 1970-01-01) and back, in the proleptic
  Gregorian calendar; the month is 1 to 12.\<close>

definition civil_from_days :: "int \<Rightarrow> int \<times> int \<times> int" where
  "civil_from_days z0 =
     (let z = z0 + 719468;
          era = z div 146097;
          doe = z - era * 146097;
          yoe = (doe - doe div 1460 + doe div 36524 - doe div 146096) div 365;
          y = yoe + era * 400;
          doy = doe - (365 * yoe + yoe div 4 - yoe div 100);
          mp = (5 * doy + 2) div 153;
          d = doy - (153 * mp + 2) div 5 + 1;
          m = (if mp < 10 then mp + 3 else mp - 9)
      in (if m \<le> 2 then y + 1 else y, m, d))"

definition days_from_civil :: "int \<Rightarrow> int \<Rightarrow> int \<Rightarrow> int" where
  "days_from_civil y0 m d =
     (let y = (if m \<le> 2 then y0 - 1 else y0);
          era = y div 400;
          yoe = y - era * 400;
          doy = (153 * (if m > 2 then m - 3 else m + 9) + 2) div 5 + d - 1;
          doe = yoe * 365 + yoe div 4 - yoe div 100 + doy
      in era * 146097 + doe - 719468)"

definition ms_per_day :: int where
  "ms_per_day = 86400000"

text \<open>The local day number of an instant.\<close>

definition local_day :: "int \<Rightarrow> js_date \<Rightarrow> int" where
  "local_day offset t = (t + offset) div ms_per_day"

definition getFullYear :: "int \<Rightarrow> js_date \<Rightarrow> int" where
  "getFullYear offset t = fst (civil_from_days (local_day offset t))"




text \<open>\<^verbatim>\<open>new Date(year, 0, 1)\<close>: the local midnight that starts the year; a year from 0
  to 99 counts from 1900.\<close>

definition Date_year_start :: "int \<Rightarrow> int \<Rightarrow> js_date" where
  "Date_year_start offset year =
     days_from_civil (if 0 \<le> year \<and> year \<le> 99 then 1900 + year else year) 1 1 * ms_per_day
       - offset"

text \<open>\<^verbatim>\<open>String(n)\<close> of a non-negative integer, and of an integer.\<close>

definition digit_char :: "nat \<Rightarrow> char" where
  "digit_char d = ''0123456789'' ! (d mod 10)"

function String_nat :: "nat \<Rightarrow> string" where
  "String_nat n =
     (if n < 10 then [digit_char n] else String_nat (n div 10) @ [digit_char (n mod 10)])"
  by pat_completeness auto
termination
  by (relation "measure id") auto

declare String_nat.simps [simp del]

definition String_int :: "int \<Rightarrow> string" where
  "String_int i = (if i < 0 then CHR ''-'' # String_nat (nat (- i)) else String_nat (nat i))"

text \<open>\<^verbatim>\<open>s.padStart(n, c)\<close> with a one-character filler.\<close>

definition padStart :: "string \<Rightarrow> nat \<Rightarrow> char \<Rightarrow> string" where
  "padStart s n c = replicate (n - length s) c @ s"

text \<open>\<^verbatim>\<open>a || b\<close> on an optional string: the empty string is falsy.\<close>

definition str_or :: "string option \<Rightarrow> string \<Rightarrow> string" where
  "str_or a b = (case a of None \<Rightarrow> b | Some s \<Rightarrow> (if s = [] then b else s))"

text \<open>A string inside a template literal: \<^verbatim>\<open>undefined\<close> prints as its name.\<close>

definition template_str :: "string option \<Rightarrow> string" where
  "template_str a = (case a of None \<Rightarrow> ''undefined'' | Some s \<Rightarrow> s)"

text \<open>\<^verbatim>\<open>s.trim()\<close>, the setter of a schema path with \<^verbatim>\<open>trim: true\<close>: the white space
  of ASCII (tab, line feed, vertical tab, form feed, carriage return, space) is removed
  from both ends.\<close>

definition is_space :: "char \<Rightarrow> bool" where
  "is_space c = (c \<in> set [CHR 0x09, CHR 0x0A, CHR 0x0B, CHR 0x0C, CHR 0x0D, CHR 0x20])"

definition trim :: "string \<Rightarrow> string" where
  "trim s = rev (dropWhile is_space (rev (dropWhile is_space s)))"

text \<open>The validator \<^verbatim>\<open>required\<close> of a string path fails on a missing value and on the
  empty string.\<close>

definition missing :: "string option \<Rightarrow> bool" where
  "missing x = (case x of None \<Rightarrow> True | Some s \<Rightarrow> s = [])"

subsection \<open>Journal entry model: validation, the pre-save hooks, create, save and reverse\<close>

text \<open>Casting an input line to the line schema: a missing amount takes the default 0, the
  strings are trimmed.\<close>

definition cast_line :: "line_input \<Rightarrow> je_line" where
  "cast_line li =
     \<lparr> l_account = li_account li,
       l_accountCode = trim (li_accountCode li),
       l_accountName = trim (li_accountName li),
       l_accountType = li_accountType li,
       l_debit = (case li_debit li of None \<Rightarrow> 0 | Some v \<Rightarrow> v),
       l_credit = (case li_credit li of None \<Rightarrow> 0 | Some v \<Rightarrow> v),
       l_description = map_option trim (li_description li) \<rparr>"

text \<open>The validators of \<^verbatim>\<open>JournalEntryLineSchema\<close> on the line at an index: the paths
  that fail.\<close>

definition line_errors :: "nat \<times> je_line \<Rightarrow> string list" where
  "line_errors il =
     (let path = ''lines.'' @ String_nat (fst il) @ ''.''; line = snd il
      in (if l_accountCode line = [] then [path @ ''accountCode''] else [])
         @ (if l_accountName line = [] then [path @ ''accountName''] else [])
         @ (if l_debit line < 0 then [path @ ''debit''] else [])
         @ (if l_credit line < 0 then [path @ ''credit''] else []))"

text \<open>The validators of \<^verbatim>\<open>JournalEntrySchema\<close>: \<^verbatim>\<open>tenantId\<close>, \<^verbatim>\<open>description\<close> and the
  two totals are required, an entry has at least two lines, no amount is negative. The
  paths whose types always hold a value here (the date, the types, the ids) cannot fail.\<close>

definition JournalEntry_validate :: "journal_entry \<Rightarrow> string list" where
  "JournalEntry_validate doc =
     (if missing (je_tenantId doc) then [''tenantId''] else [])
     @ (if je_description doc = [] then [''description''] else [])
     @ (if length (je_lines doc) < 2 then [''lines''] else [])
     @ concat (map line_errors (enumerate 0 (je_lines doc)))
     @ (case je_totalDebit doc of
          None \<Rightarrow> [''totalDebit'']
        | Some v \<Rightarrow> if v < 0 then [''totalDebit''] else [])
     @ (case je_totalCredit doc of
          None \<Rightarrow> [''totalCredit'']
        | Some v \<Rightarrow> if v < 0 then [''totalCredit''] else [])"

text \<open>The loop of the first hook over the lines: the first offending line throws.\<close>

fun check_lines :: "je_line list \<Rightarrow> error option" where
  "check_lines [] = None"
| "check_lines (line # rest) =
     (if l_debit line > 0 \<and> l_credit line > 0
        then Some (BothDebitAndCredit (l_accountName line))
      else if l_debit line = 0 \<and> l_credit line = 0
        then Some (NeitherDebitNorCredit (l_accountName line))
      else check_lines rest)"

text \<open>First pre-save hook: totals, the balance check, the line checks, the posting
  timestamp. On a document an amount is a number, so \<^verbatim>\<open>line.debit || 0\<close> is the
  amount itself.\<close>

definition pre_save_validate :: "js_date \<Rightarrow> journal_entry \<Rightarrow> error + journal_entry" where
  "pre_save_validate now this =
     (let totalDebit = foldl (\<lambda>sum line. sum + l_debit line) 0 (je_lines this);
          totalCredit = foldl (\<lambda>sum line. sum + l_credit line) 0 (je_lines this);
          this1 = this \<lparr> je_totalDebit := Some totalDebit, je_totalCredit := Some totalCredit \<rparr>;
          difference = \<bar>totalDebit - totalCredit\<bar>
      in if difference > 1 / 100 then Inl (NotBalanced totalDebit totalCredit)
         else (case check_lines (je_lines this1) of
                 Some e \<Rightarrow> Inl e
               | None \<Rightarrow>
                   Inr (if je_isPosted this1 \<and> je_status this1 = Posted \<and> je_postedAt this1 = None
                        then this1 \<lparr> je_postedAt := Some now \<rparr> else this1)))"

text \<open>\<^verbatim>\<open>countDocuments({ date: { $gte: d } })\<close> on the journal entries.\<close>

definition countDocuments_date_gte :: "journal_entry list \<Rightarrow> js_date \<Rightarrow> nat" where
  "countDocuments_date_gte entries d = length (filter (\<lambda>e. d \<le> je_date e) entries)"

text \<open>Second pre-save hook: the entry number.\<close>

definition pre_save_entryNumber ::
  "int \<Rightarrow> journal_entry list \<Rightarrow> journal_entry \<Rightarrow> journal_entry" where
  "pre_save_entryNumber offset entries this =
     (if je_entryNumber this = None \<or> je_entryNumber this = Some []
      then
        (let year = getFullYear offset (je_date this);
             count = countDocuments_date_gte entries (Date_year_start offset year)
         in this \<lparr> je_entryNumber :=
              Some (''JE-'' @ String_int year @ ''-'' @ padStart (String_nat (count + 1)) 6 (CHR ''0'')) \<rparr>)
      else this)"

text \<open>\<^verbatim>\<open>JournalEntry.create(doc)\<close>: the document is validated, the two hooks run, the
  document is inserted.\<close>

definition JournalEntry_create ::
  "runtime \<Rightarrow> journal_entry list \<Rightarrow> journal_entry
     \<Rightarrow> error + (journal_entry \<times> journal_entry list)" where
  "JournalEntry_create rt entries doc =
     (case JournalEntry_validate doc of
        p # ps \<Rightarrow> Inl (ValidationError ''JournalEntry'' (p # ps))
      | [] \<Rightarrow>
          (case pre_save_validate (rt_now rt) doc of
             Inl e \<Rightarrow> Inl e
           | Inr d1 \<Rightarrow>
               (let d2 = pre_save_entryNumber (rt_offset rt) entries d1
                in Inr (d2, entries @ [d2]))))"

text \<open>\<^verbatim>\<open>this.save()\<close> of a document that is in the collection.\<close>

definition JournalEntry_save ::
  "runtime \<Rightarrow> journal_entry list \<Rightarrow> journal_entry
     \<Rightarrow> error + (journal_entry \<times> journal_entry list)" where
  "JournalEntry_save rt entries this =
     (case JournalEntry_validate this of
        p # ps \<Rightarrow> Inl (ValidationError ''JournalEntry'' (p # ps))
      | [] \<Rightarrow>
          (case pre_save_validate (rt_now rt) this of
             Inl e \<Rightarrow> Inl e
           | Inr d1 \<Rightarrow>
               (let d2 = pre_save_entryNumber (rt_offset rt) entries d1
                in Inr (d2, map (\<lambda>e. if je_id e = je_id d2 then d2 else e) entries))))"

definition reversal_line :: "je_line \<Rightarrow> je_line" where
  "reversal_line line =
     \<lparr> l_account = l_account line,
       l_accountCode = l_accountCode line,
       l_accountName = l_accountName line,
       l_accountType = l_accountType line,
       l_debit = l_credit line,
       l_credit = l_debit line,
       l_description = Some (trim (''Reversal of '' @ template_str (l_description line))) \<rparr>"

text \<open>The document that \<^verbatim>\<open>reverse\<close> passes to \<^verbatim>\<open>JournalEntry.create\<close>: dated now,
  with the lines swapped; it names no tenant, no entry number and no totals.\<close>

definition reversal_doc ::
  "runtime \<Rightarrow> journal_entry \<Rightarrow> object_id \<Rightarrow> string option \<Rightarrow> journal_entry" where
  "reversal_doc rt this userId reason =
     (let reversalLines = map reversal_line (je_lines this)
      in \<lparr> je_id = rt_id rt,
           je_tenantId = None,
           je_entryNumber = None,
           je_date = rt_now rt,
           je_transactionType = Adjustment,
           je_sourceTransaction =
             Some \<lparr> src_model = Some Src_Manual, src_id = None,
                    src_reference =
                      Some (trim (''Reversal of '' @ template_str (je_entryNumber this))) \<rparr>,
           je_project = je_project this,
           je_description = trim (''Reversal: '' @ str_or reason (je_description this)),
           je_lines = reversalLines,
           je_totalDebit = None,
           je_totalCredit = None,
           je_status = Posted,
           je_isPosted = True,
           je_postedAt = None,
           je_reversedBy = None,
           je_reversalOf = Some (je_id this),
           je_createdBy = userId,
           je_createdAt = rt_now rt \<rparr>)"

text \<open>\<^verbatim>\<open>JournalEntrySchema.methods.reverse\<close>. It writes outside any transaction: what
  it has written stays when a later step throws.\<close>

definition reverse ::
  "runtime \<Rightarrow> journal_entry list \<Rightarrow> journal_entry \<Rightarrow> object_id \<Rightarrow> string option
     \<Rightarrow> (error + journal_entry) \<times> journal_entry list" where
  "reverse rt entries this userId reason =
     (if je_status this \<noteq> Posted then (Inl OnlyPostedCanBeReversed, entries)
      else
        (case JournalEntry_create rt entries (reversal_doc rt this userId reason) of
           Inl e \<Rightarrow> (Inl e, entries)
         | Inr (reversalEntry, entries1) \<Rightarrow>
             (let this1 = this \<lparr> je_status := Reversed,
                                 je_reversedBy := Some (je_id reversalEntry) \<rparr>
              in case JournalEntry_save rt entries1 this1 of
                   Inl e \<Rightarrow> (Inl e, entries1)
                 | Inr (saved, entries2) \<Rightarrow> (Inr reversalEntry, entries2))))"

subsection \<open>General ledger model: validation, the pre-save hook, save and insertMany\<close>

text \<open>Casting a row to \<^verbatim>\<open>GeneralLedgerSchema\<close>: the strings are trimmed.\<close>

definition GeneralLedger_cast :: "gl_row \<Rightarrow> gl_row" where
  "GeneralLedger_cast row =
     row \<lparr> gl_accountCode := trim (gl_accountCode row),
           gl_accountName := trim (gl_accountName row),
           gl_entryNumber := map_option trim (gl_entryNumber row),
           gl_description := trim (gl_description row) \<rparr>"

text \<open>The validators of \<^verbatim>\<open>GeneralLedgerSchema\<close>: the paths that fail.\<close>

definition GeneralLedger_validate :: "gl_row \<Rightarrow> string list" where
  "GeneralLedger_validate row =
     (if missing (gl_tenantId row) then [''tenantId''] else [])
     @ (if gl_accountCode row = [] then [''accountCode''] else [])
     @ (if gl_accountName row = [] then [''accountName''] else [])
     @ (if missing (gl_entryNumber row) then [''entryNumber''] else [])
     @ (if gl_description row = [] then [''description''] else [])
     @ (if gl_debit row < 0 then [''debit''] else [])
     @ (if gl_credit row < 0 then [''credit''] else [])
     @ (case gl_fiscalPeriod row of
          None \<Rightarrow> []
        | Some p \<Rightarrow> if p < 1 then [''fiscalPeriod''] else if 12 < p then [''fiscalPeriod''] else [])"



text \<open>\<^verbatim>\<open>GeneralLedger.insertMany(rows)\<close>: every row is validated; the first row that
  fails throws and nothing is inserted; no save hook runs.\<close>

definition GeneralLedger_insertMany :: "gl_row list \<Rightarrow> gl_row list \<Rightarrow> error + gl_row list" where
  "GeneralLedger_insertMany ledger rows =
     (case filter (\<lambda>row. GeneralLedger_validate row \<noteq> []) (map GeneralLedger_cast rows) of
        bad # others \<Rightarrow> Inl (ValidationError ''GeneralLedger'' (GeneralLedger_validate bad))
      | [] \<Rightarrow> Inr (ledger @ map GeneralLedger_cast rows))"

subsection \<open>Accounting service: posting\<close>

text \<open>The sort key \<^verbatim>\<open>{ date, createdAt }\<close> of a ledger row.\<close>

definition row_key :: "gl_row \<Rightarrow> js_date \<times> js_date" where
  "row_key r = (gl_date r, gl_createdAt r)"

text \<open>\<^verbatim>\<open>findOne({ accountCode, status: "Active" }).sort({ date: -1, createdAt: -1 })\<close>.
  Among rows with the same key the store's choice is not specified; the model takes the
  one inserted last.\<close>

definition later_row :: "gl_row \<Rightarrow> gl_row option \<Rightarrow> gl_row option" where
  "later_row r best =
     (case best of
        None \<Rightarrow> Some r
      | Some b \<Rightarrow> if row_key b \<le> row_key r then Some r else Some b)"

definition previousEntry :: "gl_row list \<Rightarrow> string \<Rightarrow> gl_row option" where
  "previousEntry ledger code =
     fold later_row (filter (\<lambda>r. gl_accountCode r = code \<and> gl_status r = Active) ledger) None"

definition previousBalance :: "gl_row list \<Rightarrow> string \<Rightarrow> amount" where
  "previousBalance ledger code =
     (case previousEntry ledger code of None \<Rightarrow> 0 | Some r \<Rightarrow> gl_balance r)"

text \<open>The body of the loop of \<^verbatim>\<open>postToGeneralLedger\<close>: the row of one line. The object
  literal sets neither \<^verbatim>\<open>tenantId\<close> nor the fiscal fields.\<close>

definition ledgerEntry :: "js_date \<Rightarrow> gl_row list \<Rightarrow> journal_entry \<Rightarrow> je_line \<Rightarrow> gl_row" where
  "ledgerEntry now ledger journalEntry line =
     (let prev = previousBalance ledger (l_accountCode line);
          newBalance =
            (if l_accountType line = Asset \<or> l_accountType line = Expense
             then prev + l_debit line - l_credit line
             else prev + l_credit line - l_debit line)
      in \<lparr> gl_tenantId = None,
           gl_account = l_account line,
           gl_accountCode = l_accountCode line,
           gl_accountName = l_accountName line,
           gl_accountType = l_accountType line,
           gl_date = je_date journalEntry,
           gl_journalEntry = je_id journalEntry,
           gl_entryNumber = je_entryNumber journalEntry,
           gl_description = str_or (l_description line) (je_description journalEntry),
           gl_transactionType = je_transactionType journalEntry,
           gl_project = je_project journalEntry,
           gl_debit = l_debit line,
           gl_credit = l_credit line,
           gl_balance = newBalance,
           gl_sourceTransaction = je_sourceTransaction journalEntry,
           gl_fiscalYear = None,
           gl_fiscalPeriod = None,
           gl_status = Active,
           gl_createdAt = now \<rparr>)"

text \<open>The array \<^verbatim>\<open>ledgerEntries\<close> that the loop builds: one row for each line, every one
  computed on the ledger as it was before the call.\<close>

definition ledgerEntries :: "runtime \<Rightarrow> gl_row list \<Rightarrow> journal_entry \<Rightarrow> gl_row list" where
  "ledgerEntries rt ledger journalEntry =
     map (ledgerEntry (rt_now rt) ledger journalEntry) (je_lines journalEntry)"

text \<open>\<^verbatim>\<open>postToGeneralLedger\<close>: the rows are built, then handed to \<^verbatim>\<open>insertMany\<close>.\<close>

definition postToGeneralLedger ::
  "runtime \<Rightarrow> gl_row list \<Rightarrow> journal_entry \<Rightarrow> error + gl_row list" where
  "postToGeneralLedger rt ledger journalEntry =
     GeneralLedger_insertMany ledger (ledgerEntries rt ledger journalEntry)"

subsection \<open>Accounting service: creating and reversing a journal entry\<close>

text \<open>The document that \<^verbatim>\<open>createJournalEntry\<close> passes to \<^verbatim>\<open>JournalEntry.create\<close>: the
  caller's data, cast to the schema, with the totals, the user and the posted status.\<close>

definition new_entry ::
  "runtime \<Rightarrow> entry_data \<Rightarrow> object_id \<Rightarrow> amount \<Rightarrow> amount \<Rightarrow> journal_entry" where
  "new_entry rt entryData userId totalDebit totalCredit =
     \<lparr> je_id = rt_id rt,
       je_tenantId = ed_tenantId entryData,
       je_entryNumber = map_option trim (ed_entryNumber entryData),
       je_date = (case ed_date entryData of None \<Rightarrow> rt_now rt | Some d \<Rightarrow> d),
       je_transactionType = ed_transactionType entryData,
       je_sourceTransaction =
         map_option (\<lambda>s. s \<lparr> src_reference := map_option trim (src_reference s) \<rparr>)
           (ed_sourceTransaction entryData),
       je_project = ed_project entryData,
       je_description = trim (ed_description entryData),
       je_lines = map cast_line (ed_lines entryData),
       je_totalDebit = Some totalDebit,
       je_totalCredit = Some totalCredit,
       je_status = Posted,
       je_isPosted = True,
       je_postedAt = None,
       je_reversedBy = None,
       je_reversalOf = None,
       je_createdBy = userId,
       je_createdAt = rt_now rt \<rparr>"

text \<open>\<^verbatim>\<open>createJournalEntry\<close>: one transaction; every throw aborts it, and the database
  is the one before the call.\<close>

definition createJournalEntry ::
  "runtime \<Rightarrow> db \<Rightarrow> entry_data \<Rightarrow> object_id \<Rightarrow> (error + journal_entry) \<times> db" where
  "createJournalEntry rt d entryData userId =
     (let totalDebit = foldl (\<lambda>sum line. sum + or0 (li_debit line)) 0 (ed_lines entryData);
          totalCredit = foldl (\<lambda>sum line. sum + or0 (li_credit line)) 0 (ed_lines entryData)
      in if \<bar>totalDebit - totalCredit\<bar> > 1 / 100
         then (Inl (NotBalanced totalDebit totalCredit), d)
         else
           (case JournalEntry_create rt (journalEntries d)
                   (new_entry rt entryData userId totalDebit totalCredit) of
              Inl e \<Rightarrow> (Inl e, d)
            | Inr (journalEntry, entries1) \<Rightarrow>
                (case (if je_isPosted journalEntry
                       then postToGeneralLedger rt (generalLedger d) journalEntry
                       else Inr (generalLedger d)) of
                   Inl e \<Rightarrow> (Inl e, d)
                 | Inr ledger1 \<Rightarrow>
                     (Inr journalEntry,
                      d \<lparr> journalEntries := entries1, generalLedger := ledger1 \<rparr>))))"

definition findById :: "journal_entry list \<Rightarrow> object_id \<Rightarrow> journal_entry option" where
  "findById entries entryId = find (\<lambda>e. je_id e = entryId) entries"

text \<open>\<^verbatim>\<open>updateMany({ journalEntry: entryId }, { status: "Reversed" })\<close>.\<close>

definition updateMany_Reversed :: "gl_row list \<Rightarrow> object_id \<Rightarrow> gl_row list" where
  "updateMany_Reversed ledger entryId =
     map (\<lambda>r. if gl_journalEntry r = entryId then r \<lparr> gl_status := Row_Reversed \<rparr> else r) ledger"

text \<open>\<^verbatim>\<open>reverseJournalEntry\<close>: \<^verbatim>\<open>entry.reverse\<close> runs first, on its own; the transaction
  starts after it and holds the two ledger writes only. When \<^verbatim>\<open>entry.reverse\<close> or the
  transaction throws, the journal entries are as \<^verbatim>\<open>entry.reverse\<close> left them.\<close>

definition reverseJournalEntry ::
  "runtime \<Rightarrow> db \<Rightarrow> object_id \<Rightarrow> object_id \<Rightarrow> string option
     \<Rightarrow> (error + journal_entry) \<times> db" where
  "reverseJournalEntry rt d entryId userId reason =
     (case findById (journalEntries d) entryId of
        None \<Rightarrow> (Inl EntryNotFound, d)
      | Some entry \<Rightarrow>
          (case reverse rt (journalEntries d) entry userId reason of
             (Inl e, entries1) \<Rightarrow> (Inl e, d \<lparr> journalEntries := entries1 \<rparr>)
           | (Inr reversalEntry, entries1) \<Rightarrow>
               (let d1 = d \<lparr> journalEntries := entries1 \<rparr>
                in case postToGeneralLedger rt (generalLedger d1) reversalEntry of
                     Inl e \<Rightarrow> (Inl e, d1)
                   | Inr ledger1 \<Rightarrow>
                       (Inr reversalEntry,
                        d1 \<lparr> generalLedger := updateMany_Reversed ledger1 entryId \<rparr>))))"

subsection \<open>General ledger model: the statement queries\<close>

text \<open>A \<^verbatim>\<open>$group\<close> stage: the groups in the order of their first rows, each with its
  key, its first row (for \<^verbatim>\<open>$first\<close>) and all its rows.\<close>

fun group_rows :: "(gl_row \<Rightarrow> 'k) \<Rightarrow> gl_row list \<Rightarrow> ('k \<times> gl_row \<times> gl_row list) list" where
  "group_rows key [] = []"
| "group_rows key (r # rs) =
     (key r, r, r # filter (\<lambda>x. key x = key r) rs)
       # group_rows key (filter (\<lambda>x. key x \<noteq> key r) rs)"

record balance_result =
  br_accountName :: "string option"
  br_accountType :: "account_type option"
  br_totalDebit :: amount
  br_totalCredit :: amount
  br_balance :: amount

definition getAccountBalance :: "gl_row list \<Rightarrow> string \<Rightarrow> js_date \<Rightarrow> balance_result" where
  "getAccountBalance ledger accountCode asOfDate =
     (let matched = filter (\<lambda>r. gl_accountCode r = accountCode \<and> gl_date r \<le> asOfDate
                                 \<and> gl_status r = Active) ledger;
          result = map (\<lambda>(code, first, rows).
                          \<lparr> br_accountName = Some (gl_accountName first),
                            br_accountType = Some (gl_accountType first),
                            br_totalDebit = sum_list (map gl_debit rows),
                            br_totalCredit = sum_list (map gl_credit rows),
                            br_balance = sum_list (map gl_debit rows) - sum_list (map gl_credit rows) \<rparr>)
                     (group_rows gl_accountCode matched)
      in case result of
           r0 # rest \<Rightarrow> r0
         | [] \<Rightarrow> \<lparr> br_accountName = None, br_accountType = None,
                   br_totalDebit = 0, br_totalCredit = 0, br_balance = 0 \<rparr>)"

record account_ledger =
  al_accountCode :: string
  al_openingBalance :: amount
  al_closingBalance :: amount
  al_entries :: "(gl_row \<times> amount) list"

text \<open>The \<^verbatim>\<open>map\<close> with the mutable \<^verbatim>\<open>runningBalance\<close>: the rows with their running
  balances, and the last value of the variable.\<close>

fun ledgerWithBalance :: "amount \<Rightarrow> gl_row list \<Rightarrow> (gl_row \<times> amount) list \<times> amount" where
  "ledgerWithBalance runningBalance [] = ([], runningBalance)"
| "ledgerWithBalance runningBalance (entry # rest) =
     (let runningBalance1 = runningBalance + (gl_debit entry - gl_credit entry);
          (more, final) = ledgerWithBalance runningBalance1 rest
      in ((entry, runningBalance1) # more, final))"

definition getAccountLedger ::
  "gl_row list \<Rightarrow> string \<Rightarrow> js_date option \<Rightarrow> js_date option \<Rightarrow> account_ledger" where
  "getAccountLedger ledger accountCode startDate endDate =
     (let query = (\<lambda>r. gl_accountCode r = accountCode \<and> gl_status r = Active
                       \<and> (case startDate of None \<Rightarrow> True | Some s \<Rightarrow> s \<le> gl_date r)
                       \<and> (case endDate of None \<Rightarrow> True | Some e \<Rightarrow> gl_date r \<le> e));
          openingBalance =
            (case startDate of
               None \<Rightarrow> 0
             | Some s \<Rightarrow> br_balance (getAccountBalance ledger accountCode s));
          entries = sort_key row_key (filter query ledger);
          (withBalance, runningBalance) = ledgerWithBalance openingBalance entries
      in \<lparr> al_accountCode = accountCode,
           al_openingBalance = openingBalance,
           al_closingBalance = runningBalance,
           al_entries = withBalance \<rparr>)"

record tb_account =
  tb_accountCode :: string
  tb_accountName :: string
  tb_accountType :: account_type
  tb_debit :: amount
  tb_credit :: amount

record trial_balance =
  tb_asOfDate :: js_date
  tb_accounts :: "tb_account list"
  tb_totalDebit :: amount
  tb_totalCredit :: amount
  tb_isBalanced :: bool

text \<open>The aggregation pipeline of \<^verbatim>\<open>getTrialBalance\<close>: match, group, project, match,
  sort.\<close>

definition trialBalance_aggregate :: "gl_row list \<Rightarrow> js_date \<Rightarrow> tb_account list" where
  "trialBalance_aggregate ledger asOfDate =
     (let matched = filter (\<lambda>r. gl_date r \<le> asOfDate \<and> gl_status r = Active) ledger;
          projected = map (\<lambda>(code, first, rows).
                             \<lparr> tb_accountCode = code,
                               tb_accountName = gl_accountName first,
                               tb_accountType = gl_accountType first,
                               tb_debit = sum_list (map gl_debit rows) - sum_list (map gl_credit rows),
                               tb_credit = sum_list (map gl_credit rows) - sum_list (map gl_debit rows) \<rparr>)
                        (group_rows gl_accountCode matched);
          nonzero = filter (\<lambda>a. tb_debit a > 0 \<or> tb_credit a > 0) projected
      in sort_key tb_accountCode nonzero)"

definition getTrialBalance :: "gl_row list \<Rightarrow> js_date \<Rightarrow> trial_balance" where
  "getTrialBalance ledger asOfDate =
     (let result = trialBalance_aggregate ledger asOfDate;
          trialBalance = map (\<lambda>account.
                                account \<lparr> tb_debit := (if tb_debit account > 0 then tb_debit account else 0),
                                          tb_credit := (if tb_credit account > 0 then tb_credit account else 0) \<rparr>)
                           result;
          totals = foldl (\<lambda>(totalDebit, totalCredit) account.
                            (totalDebit + tb_debit account, totalCredit + tb_credit account))
                     (0, 0) trialBalance
      in \<lparr> tb_asOfDate = asOfDate,
           tb_accounts = trialBalance,
           tb_totalDebit = fst totals,
           tb_totalCredit = snd totals,
           tb_isBalanced = (\<bar>fst totals - snd totals\<bar> < 1 / 100) \<rparr>)"

record stmt_account =
  sa_accountCode :: string
  sa_accountName :: string
  sa_accountType :: account_type
  sa_balance :: amount

text \<open>The pipeline shared by the balance sheet and the profit and loss statement: the
  matched rows grouped by code and type, each with its debit minus credit, sorted by
  code.\<close>

definition statement_aggregate :: "gl_row list \<Rightarrow> stmt_account list" where
  "statement_aggregate matched =
     sort_key sa_accountCode
       (map (\<lambda>(k, first, rows).
               \<lparr> sa_accountCode = fst k,
                 sa_accountName = gl_accountName first,
                 sa_accountType = snd k,
                 sa_balance = sum_list (map gl_debit rows) - sum_list (map gl_credit rows) \<rparr>)
          (group_rows (\<lambda>r. (gl_accountCode r, gl_accountType r)) matched))"

record balance_sheet =
  bs_assets :: "stmt_account list"
  bs_totalAssets :: amount
  bs_liabilities :: "stmt_account list"
  bs_totalLiabilities :: amount
  bs_equity :: "stmt_account list"
  bs_totalEquity :: amount
  bs_totalLiabilitiesAndEquity :: amount
  bs_isBalanced :: bool

definition getBalanceSheet :: "gl_row list \<Rightarrow> js_date \<Rightarrow> balance_sheet" where
  "getBalanceSheet ledger asOfDate =
     (let result = statement_aggregate
            (filter (\<lambda>r. gl_date r \<le> asOfDate \<and> gl_status r = Active
                          \<and> gl_accountType r \<in> {Asset, Liability, Equity}) ledger);
          assets = filter (\<lambda>a. sa_accountType a = Asset \<and> sa_balance a \<noteq> 0) result;
          liabilities = filter (\<lambda>a. sa_accountType a = Liability \<and> sa_balance a \<noteq> 0) result;
          equity = filter (\<lambda>a. sa_accountType a = Equity \<and> sa_balance a \<noteq> 0) result;
          totalAssets = foldl (\<lambda>sum a. sum + sa_balance a) 0 assets;
          totalLiabilities = foldl (\<lambda>sum a. sum + \<bar>sa_balance a\<bar>) 0 liabilities;
          totalEquity = foldl (\<lambda>sum a. sum + \<bar>sa_balance a\<bar>) 0 equity
      in \<lparr> bs_assets = assets,
           bs_totalAssets = totalAssets,
           bs_liabilities = map (\<lambda>l. l \<lparr> sa_balance := \<bar>sa_balance l\<bar> \<rparr>) liabilities,
           bs_totalLiabilities = totalLiabilities,
           bs_equity = map (\<lambda>e. e \<lparr> sa_balance := \<bar>sa_balance e\<bar> \<rparr>) equity,
           bs_totalEquity = totalEquity,
           bs_totalLiabilitiesAndEquity = totalLiabilities + totalEquity,
           bs_isBalanced = (\<bar>totalAssets - (totalLiabilities + totalEquity)\<bar> < 1 / 100) \<rparr>)"

record profit_and_loss =
  pl_revenue :: "(stmt_account \<times> amount) list"
  pl_totalRevenue :: amount
  pl_expenses :: "(stmt_account \<times> amount) list"
  pl_totalExpenses :: amount
  pl_netProfit :: amount
  pl_netProfitMargin :: amount

definition getProfitAndLoss ::
  "gl_row list \<Rightarrow> js_date option \<Rightarrow> js_date option \<Rightarrow> profit_and_loss" where
  "getProfitAndLoss ledger startDate endDate =
     (let query = (\<lambda>r. gl_status r = Active \<and> gl_accountType r \<in> {Revenue, Expense}
                       \<and> (case startDate of None \<Rightarrow> True | Some s \<Rightarrow> s \<le> gl_date r)
                       \<and> (case endDate of None \<Rightarrow> True | Some e \<Rightarrow> gl_date r \<le> e));
          result = statement_aggregate (filter query ledger);
          revenue = filter (\<lambda>a. sa_accountType a = Revenue) result;
          expenses = filter (\<lambda>a. sa_accountType a = Expense) result;
          totalRevenue = foldl (\<lambda>sum a. sum + \<bar>sa_balance a\<bar>) 0 revenue;
          totalExpenses = foldl (\<lambda>sum a. sum + \<bar>sa_balance a\<bar>) 0 expenses;
          netProfit = totalRevenue - totalExpenses
      in \<lparr> pl_revenue = map (\<lambda>r. (r, \<bar>sa_balance r\<bar>)) revenue,
           pl_totalRevenue = totalRevenue,
           pl_expenses = map (\<lambda>e. (e, \<bar>sa_balance e\<bar>)) expenses,
           pl_totalExpenses = totalExpenses,
           pl_netProfit = netProfit,
           pl_netProfitMargin =
             (if totalRevenue > 0 then (netProfit / totalRevenue) * 100 else 0) \<rparr>)"
subsection \<open>Maintenance script: recalculation of the stored balances\<close>







subsection \<open>Accounting service: the chart of accounts\<close>

text \<open>\<^verbatim>\<open>mapping[accountType] || "Other"\<close>.\<close>

definition getFinancialComponent :: "account_type option \<Rightarrow> string" where
  "getFinancialComponent accountType =
     (case accountType of
        Some Asset \<Rightarrow> ''Assets''
      | Some Liability \<Rightarrow> ''Liabilities''
      | Some Equity \<Rightarrow> ''Equity''
      | Some Revenue \<Rightarrow> ''Operating Income''
      | Some Expense \<Rightarrow> ''Operating Expenses''
      | None \<Rightarrow> ''Other'')"

text \<open>The validators of \<^verbatim>\<open>ChartOfAccountSchema\<close>: \<^verbatim>\<open>tenantId\<close> is required.\<close>

definition ChartOfAccount_validate :: "chart_account \<Rightarrow> string list" where
  "ChartOfAccount_validate account =
     (if missing (ca_tenantId account) then [''tenantId''] else [])"

text \<open>\<^verbatim>\<open>getOrCreateAccount\<close>: the account with the code; else the account that has the
  code among its sub-accounts or list accounts; else a new account, built without a
  tenant.\<close>

definition getOrCreateAccount ::
  "runtime \<Rightarrow> chart_account list \<Rightarrow> string \<Rightarrow> string \<Rightarrow> account_type option
     \<Rightarrow> (error + chart_account) \<times> chart_account list" where
  "getOrCreateAccount rt accounts code name type =
     (case find (\<lambda>a. ca_code a = Some code) accounts of
        Some account \<Rightarrow> (Inr account, accounts)
      | None \<Rightarrow>
          (case find (\<lambda>a. code \<in> set (map fst (ca_subAccounts a))
                          \<or> code \<in> set (map fst (ca_listAccounts a))) accounts of
             Some parentAccount \<Rightarrow> (Inr parentAccount, accounts)
           | None \<Rightarrow>
               (let account =
                      \<lparr> ca_id = rt_id rt,
                        ca_tenantId = None,
                        ca_code = Some (trim code),
                        ca_name = Some (trim name),
                        ca_accountType = type,
                        ca_mainAccountType = None,
                        ca_mainTypeCode = Some (trim code),
                        ca_mainAccountTypeText = Some (trim name),
                        ca_financialComponent = Some (trim (getFinancialComponent type)),
                        ca_subAccounts = [],
                        ca_listAccounts = [] \<rparr>
                in case ChartOfAccount_validate account of
                     p # ps \<Rightarrow> (Inl (ValidationError ''ChartOfAccount'' (p # ps)), accounts)
                   | [] \<Rightarrow> (Inr account, accounts @ [account]))))"

subsection \<open>Example data\<close>

text \<open>The empty database, and the two accounts the examples use: cash (an asset, code
  1000) and sales revenue (code 4000).\<close>

definition empty_db :: db where
  "empty_db = \<lparr> journalEntries = [], generalLedger = [], chartOfAccounts = [] \<rparr>"

definition cash_line :: "amount option \<Rightarrow> amount option \<Rightarrow> line_input" where
  "cash_line d c =
     \<lparr> li_account = 1, li_accountCode = ''1000'', li_accountName = ''Cash Account'',
       li_accountType = Asset, li_debit = d, li_credit = c, li_description = None \<rparr>"

definition revenue_line :: "amount option \<Rightarrow> amount option \<Rightarrow> line_input" where
  "revenue_line d c =
     \<lparr> li_account = 2, li_accountCode = ''4000'', li_accountName = ''Sales Revenue'',
       li_accountType = Revenue, li_debit = d, li_credit = c, li_description = None \<rparr>"

text \<open>The data of a sale of tenant A; every required path has a value.\<close>

definition sale_data :: "js_date \<Rightarrow> line_input list \<Rightarrow> entry_data" where
  "sale_data t ls =
     \<lparr> ed_tenantId = Some ''tenant-a'', ed_entryNumber = None, ed_date = Some t,
       ed_transactionType = Sale, ed_sourceTransaction = None, ed_project = None,
       ed_description = ''Sale'', ed_lines = ls \<rparr>"

text \<open>The two inputs of the spec's rejection scenario.\<close>

definition lines_100_99 :: "line_input list" where
  "lines_100_99 = [cash_line (Some 100) None, revenue_line None (Some 99)]"

definition lines_100_100 :: "line_input list" where
  "lines_100_100 = [cash_line (Some 100) None, revenue_line None (Some 100)]"

text \<open>Two instants: 2024-03-01 and 2025-06-01, both at 00:00 UTC.\<close>

definition t_2024_03_01 :: js_date where
  "t_2024_03_01 = 1709251200000"

definition t_2025_06_01 :: js_date where
  "t_2025_06_01 = 1748736000000"

text \<open>Two run times in UTC, one at each of the two instants, and the second in a process
  whose local time is five hours ahead of UTC.\<close>

definition rt_2024 :: runtime where
  "rt_2024 = \<lparr> rt_offset = 0, rt_now = t_2024_03_01, rt_id = 1 \<rparr>"

definition rt_2025 :: runtime where
  "rt_2025 = \<lparr> rt_offset = 0, rt_now = t_2025_06_01, rt_id = 2 \<rparr>"

definition rt_2025_east :: runtime where
  "rt_2025_east = \<lparr> rt_offset = 18000000, rt_now = t_2025_06_01, rt_id = 2 \<rparr>"

text \<open>A database that holds the sale of 100 of tenant A, dated 2024-03-01 (cash debit 100,
  revenue credit 100): the posted entry and its two Active ledger rows, every required path
  with a value.\<close>

definition sale_entry :: journal_entry where
  "sale_entry =
     \<lparr> je_id = 1, je_tenantId = Some ''tenant-a'', je_entryNumber = Some ''JE-2024-000001'',
       je_date = t_2024_03_01, je_transactionType = Sale, je_sourceTransaction = None,
       je_project = None, je_description = ''Sale'',
       je_lines = map cast_line lines_100_100,
       je_totalDebit = Some 100, je_totalCredit = Some 100, je_status = Posted,
       je_isPosted = True, je_postedAt = Some t_2024_03_01, je_reversedBy = None,
       je_reversalOf = None, je_createdBy = 7, je_createdAt = t_2024_03_01 \<rparr>"

definition sale_cash_row :: gl_row where
  "sale_cash_row =
     \<lparr> gl_tenantId = Some ''tenant-a'', gl_account = 1, gl_accountCode = ''1000'',
       gl_accountName = ''Cash Account'', gl_accountType = Asset, gl_date = t_2024_03_01,
       gl_journalEntry = 1, gl_entryNumber = Some ''JE-2024-000001'',
       gl_description = ''Sale'', gl_transactionType = Sale, gl_project = None,
       gl_debit = 100, gl_credit = 0, gl_balance = 100, gl_sourceTransaction = None,
       gl_fiscalYear = Some 2024, gl_fiscalPeriod = Some 3, gl_status = Active,
       gl_createdAt = t_2024_03_01 \<rparr>"

definition sale_revenue_row :: gl_row where
  "sale_revenue_row =
     sale_cash_row \<lparr> gl_account := 2, gl_accountCode := ''4000'',
       gl_accountName := ''Sales Revenue'', gl_accountType := Revenue,
       gl_debit := 0, gl_credit := 100 \<rparr>"

definition db_after_sale :: db where
  "db_after_sale =
     \<lparr> journalEntries = [sale_entry], generalLedger = [sale_cash_row, sale_revenue_row],
       chartOfAccounts = [] \<rparr>"


text \<open>A second sale of tenant A, of 50, dated 2025-06-01: a journal entry document whose
  rows are not in the ledger.\<close>

definition second_sale :: journal_entry where
  "second_sale =
     sale_entry \<lparr> je_id := 2, je_entryNumber := Some ''JE-2025-000001'', je_date := t_2025_06_01,
       je_lines := map cast_line [cash_line (Some 50) None, revenue_line None (Some 50)],
       je_totalDebit := Some 50, je_totalCredit := Some 50,
       je_postedAt := Some t_2025_06_01, je_createdAt := t_2025_06_01 \<rparr>"

text \<open>A collection that holds one entry, dated 2025-06-01.\<close>

definition entry_2025 :: journal_entry where
  "entry_2025 =
     sale_entry \<lparr> je_entryNumber := Some ''JE-2025-000001'', je_date := t_2025_06_01,
       je_postedAt := Some t_2025_06_01, je_createdAt := t_2025_06_01 \<rparr>"

text \<open>Records of another tenant: a cash row, a revenue row and a cash account.\<close>

definition tenant_b_cash_row :: gl_row where
  "tenant_b_cash_row =
     \<lparr> gl_tenantId = Some ''tenant-b'', gl_account = 11, gl_accountCode = ''1000'',
       gl_accountName = ''Cash Account'', gl_accountType = Asset, gl_date = t_2024_03_01,
       gl_journalEntry = 21, gl_entryNumber = Some ''JE-2024-000001'',
       gl_description = ''Sale'', gl_transactionType = Sale, gl_project = None,
       gl_debit = 500, gl_credit = 0, gl_balance = 500, gl_sourceTransaction = None,
       gl_fiscalYear = Some 2024, gl_fiscalPeriod = Some 3, gl_status = Active,
       gl_createdAt = t_2024_03_01 \<rparr>"

definition tenant_b_revenue_row :: gl_row where
  "tenant_b_revenue_row =
     tenant_b_cash_row \<lparr> gl_account := 12, gl_accountCode := ''4000'',
       gl_accountName := ''Sales Revenue'', gl_accountType := Revenue,
       gl_debit := 0, gl_credit := 500 \<rparr>"

definition tenant_b_account :: chart_account where
  "tenant_b_account =
     \<lparr> ca_id = 11, ca_tenantId = Some ''tenant-b'', ca_code = Some ''1000'',
       ca_name = Some ''Petty cash of B'', ca_accountType = Some Asset, ca_mainAccountType = None,
       ca_mainTypeCode = Some ''1000'', ca_mainAccountTypeText = Some ''Petty cash of B'',
       ca_financialComponent = Some ''Assets'', ca_subAccounts = [], ca_listAccounts = [] \<rparr>"

text \<open>A ledger that holds the rows of a sale of 5 and of its refund, both dated
  2024-03-01.\<close>

definition db_sale_refund :: db where
  "db_sale_refund =
     \<lparr> journalEntries = [],
       generalLedger =
         [sale_cash_row \<lparr> gl_debit := 5, gl_balance := 5 \<rparr>,
          sale_revenue_row \<lparr> gl_credit := 5, gl_balance := 5 \<rparr>,
          sale_cash_row \<lparr> gl_journalEntry := 2, gl_entryNumber := Some ''JE-2024-000002'',
                          gl_debit := 0, gl_credit := 5, gl_balance := 0 \<rparr>,
          sale_revenue_row \<lparr> gl_journalEntry := 2, gl_entryNumber := Some ''JE-2024-000002'',
                             gl_debit := 5, gl_credit := 0, gl_balance := 0 \<rparr>],
       chartOfAccounts = [] \<rparr>"



section \<open>Properties\<close>

subsection \<open>The balance of a row: the poster and the recalculation script\<close>








lemma ledgerEntry_fields:
  "gl_accountCode (ledgerEntry now ledger journalEntry line) = l_accountCode line
   \<and> gl_debit (ledgerEntry now ledger journalEntry line) = l_debit line
   \<and> gl_credit (ledgerEntry now ledger journalEntry line) = l_credit line
   \<and> gl_status (ledgerEntry now ledger journalEntry line) = Active
   \<and> gl_tenantId (ledgerEntry now ledger journalEntry line) = None
   \<and> gl_balance (ledgerEntry now ledger journalEntry line)
       = (case previousEntry ledger (l_accountCode line) of None \<Rightarrow> 0 | Some p \<Rightarrow> gl_balance p)
         + (if l_accountType line \<in> {Asset, Expense}
            then l_debit line - l_credit line else l_credit line - l_debit line)"
  by (simp add: ledgerEntry_def Let_def previousBalance_def)
















subsection \<open>What the validators let through\<close>

text \<open>A row that names no tenant fails the validation of the ledger schema, and every row
  that the poster builds names none: \<^verbatim>\<open>insertMany\<close> throws on the first of them, and
  \<^verbatim>\<open>postToGeneralLedger\<close> returns only for an entry without lines, having stored
  nothing.\<close>

lemma GeneralLedger_validate_no_tenant:
  "gl_tenantId row = None \<Longrightarrow> GeneralLedger_validate row = ''tenantId'' # tl (GeneralLedger_validate row)"
  by (simp add: GeneralLedger_validate_def missing_def)

lemma GeneralLedger_cast_tenantId: "gl_tenantId (GeneralLedger_cast row) = gl_tenantId row"
  by (simp add: GeneralLedger_cast_def)

lemma GeneralLedger_insertMany_Inr:
  assumes "GeneralLedger_insertMany ledger rows = Inr ledger'"
  shows "ledger' = ledger @ map GeneralLedger_cast rows
         \<and> (\<forall>row \<in> set rows. GeneralLedger_validate (GeneralLedger_cast row) = [])"
proof -
  from assms have f: "filter (\<lambda>row. GeneralLedger_validate row \<noteq> []) (map GeneralLedger_cast rows) = []"
    and l: "ledger' = ledger @ map GeneralLedger_cast rows"
    by (auto simp: GeneralLedger_insertMany_def split: list.splits)
  from f have "\<forall>row \<in> set rows. GeneralLedger_validate (GeneralLedger_cast row) = []"
    by (simp add: filter_empty_conv)
  with l show ?thesis by blast
qed

lemma postToGeneralLedger_Inr:
  assumes "postToGeneralLedger rt ledger journalEntry = Inr ledger'"
  shows "je_lines journalEntry = [] \<and> ledger' = ledger"
proof -
  note ins = GeneralLedger_insertMany_Inr[OF assms[unfolded postToGeneralLedger_def]]
  have "je_lines journalEntry = []"
  proof (rule ccontr)
    assume "je_lines journalEntry \<noteq> []"
    then obtain line where line: "line \<in> set (je_lines journalEntry)"
      by (cases "je_lines journalEntry") auto
    let ?row = "ledgerEntry (rt_now rt) ledger journalEntry line"
    from line have "?row \<in> set (ledgerEntries rt ledger journalEntry)"
      by (simp add: ledgerEntries_def)
    with ins have v: "GeneralLedger_validate (GeneralLedger_cast ?row) = []" by blast
    have "gl_tenantId (GeneralLedger_cast ?row) = None"
      using ledgerEntry_fields[of "rt_now rt" ledger journalEntry line]
      by (simp add: GeneralLedger_cast_tenantId)
    from GeneralLedger_validate_no_tenant[OF this] v show False by simp
  qed
  with ins show ?thesis by (simp add: ledgerEntries_def)
qed

lemma JournalEntry_validate_lines:
  "JournalEntry_validate doc = [] \<Longrightarrow> 2 \<le> length (je_lines doc)"
  by (simp add: JournalEntry_validate_def split: if_splits)

lemma pre_save_validate_Inr:
  "pre_save_validate now doc = Inr d1
   \<Longrightarrow> je_lines d1 = je_lines doc \<and> je_isPosted d1 = je_isPosted doc \<and> je_date d1 = je_date doc"
  by (auto simp: pre_save_validate_def Let_def split: if_splits option.splits)

lemma pre_save_entryNumber_fields:
  "je_lines (pre_save_entryNumber offset entries this) = je_lines this
   \<and> je_isPosted (pre_save_entryNumber offset entries this) = je_isPosted this
   \<and> je_date (pre_save_entryNumber offset entries this) = je_date this"
  by (simp add: pre_save_entryNumber_def Let_def)

lemma JournalEntry_create_Inr:
  assumes "JournalEntry_create rt entries doc = Inr (journalEntry, entries1)"
  shows "2 \<le> length (je_lines journalEntry) \<and> je_isPosted journalEntry = je_isPosted doc"
proof -
  from assms have v: "JournalEntry_validate doc = []"
    by (auto simp: JournalEntry_create_def split: list.splits)
  with assms obtain d1 where d1: "pre_save_validate (rt_now rt) doc = Inr d1"
    and je: "journalEntry = pre_save_entryNumber (rt_offset rt) entries d1"
    by (auto simp: JournalEntry_create_def Let_def split: sum.splits)
  from pre_save_validate_Inr[OF d1] pre_save_entryNumber_fields[of "rt_offset rt" entries d1]
    JournalEntry_validate_lines[OF v]
  show ?thesis by (simp add: je)
qed

text \<open>\<^verbatim>\<open>createJournalEntry\<close> never commits: an entry that passes the balance check and
  the validation of the journal entry has at least two lines, so the poster throws; the
  transaction is aborted and the database is the one before the call.\<close>

lemma createJournalEntry_never_commits:
  "isl (fst (createJournalEntry rt d entryData userId))
   \<and> snd (createJournalEntry rt d entryData userId) = d"
proof -
  let ?td = "foldl (\<lambda>sum line. sum + or0 (li_debit line)) 0 (ed_lines entryData)"
  let ?tc = "foldl (\<lambda>sum line. sum + or0 (li_credit line)) 0 (ed_lines entryData)"
  let ?doc = "new_entry rt entryData userId ?td ?tc"
  show ?thesis
  proof (cases "\<bar>?td - ?tc\<bar> > 1 / 100")
    case True
    then show ?thesis by (simp add: createJournalEntry_def Let_def)
  next
    case False
    show ?thesis
    proof (cases "JournalEntry_create rt (journalEntries d) ?doc")
      case (Inl e)
      with False show ?thesis by (simp add: createJournalEntry_def Let_def)
    next
      case (Inr r)
      obtain journalEntry entries1 where r: "r = (journalEntry, entries1)" by (cases r)
      from JournalEntry_create_Inr[OF Inr[unfolded r]]
      have lines: "2 \<le> length (je_lines journalEntry)" and posted: "je_isPosted journalEntry"
        by (simp_all add: new_entry_def)
      have "\<exists>e. postToGeneralLedger rt (generalLedger d) journalEntry = Inl e"
      proof (cases "postToGeneralLedger rt (generalLedger d) journalEntry")
        case (Inl e)
        then show ?thesis by blast
      next
        case (Inr ledger1)
        from postToGeneralLedger_Inr[OF this] lines show ?thesis by simp
      qed
      then obtain e where "postToGeneralLedger rt (generalLedger d) journalEntry = Inl e" ..
      with False Inr r posted show ?thesis
        by (simp add: createJournalEntry_def Let_def)
    qed
  qed
qed


text \<open>The document that \<^verbatim>\<open>reverse\<close> builds names no tenant and no totals, which the
  schema requires: \<^verbatim>\<open>JournalEntry.create\<close> throws before anything is written, and
  neither \<^verbatim>\<open>reverse\<close> nor \<^verbatim>\<open>reverseJournalEntry\<close> ever writes.\<close>

lemma JournalEntry_create_reversal_doc:
  "\<exists>ps. JournalEntry_create rt entries (reversal_doc rt this userId reason)
          = Inl (ValidationError ''JournalEntry'' (''tenantId'' # ps))"
  by (simp add: JournalEntry_create_def JournalEntry_validate_def reversal_doc_def Let_def
        missing_def)

lemma reverse_never_writes:
  "\<exists>e. reverse rt entries this userId reason = (Inl e, entries)"
proof (cases "je_status this = Posted")
  case False
  then show ?thesis by (simp add: reverse_def)
next
  case True
  from JournalEntry_create_reversal_doc[of rt entries this userId reason]
  obtain ps where "JournalEntry_create rt entries (reversal_doc rt this userId reason)
          = Inl (ValidationError ''JournalEntry'' (''tenantId'' # ps))" ..
  with True show ?thesis by (simp add: reverse_def)
qed

lemma db_journalEntries_same: "d \<lparr> journalEntries := journalEntries d \<rparr> = d"
  by (cases d) simp

lemma reverseJournalEntry_never_writes:
  "isl (fst (reverseJournalEntry rt d entryId userId reason))
   \<and> snd (reverseJournalEntry rt d entryId userId reason) = d"
proof (cases "findById (journalEntries d) entryId")
  case None
  then show ?thesis by (simp add: reverseJournalEntry_def)
next
  case (Some entry)
  from reverse_never_writes[of rt "journalEntries d" entry userId reason]
  obtain e where "reverse rt (journalEntries d) entry userId reason = (Inl e, journalEntries d)" ..
  with Some show ?thesis
    by (simp add: reverseJournalEntry_def db_journalEntries_same)
qed

subsection \<open>Rejection of an unbalanced entry, and acceptance of a balanced one\<close>

text \<open>
  Claim C6 says that \<^verbatim>\<open>createJournalEntry\<close> rejects \<^verbatim>\<open>[{debit:100},{credit:99}]\<close> with
  a balance error and accepts \<^verbatim>\<open>[{debit:100},{credit:100}]\<close>. The first holds. The
  balanced sale, with every required path of the entry given, passes the balance check and
  the validation of the journal entry; then \<^verbatim>\<open>postToGeneralLedger\<close> hands rows without
  a \<^verbatim>\<open>tenantId\<close> to \<^verbatim>\<open>insertMany\<close>, the ledger schema requires one, and the call
  throws a validation error and leaves the database as it was. No input is ever accepted.
\<close>

theorem createJournalEntry_rejects_balanced_entry:
  "fst (createJournalEntry rt_2024 empty_db (sale_data t_2024_03_01 lines_100_100) 7)
     = Inl (ValidationError ''GeneralLedger'' [''tenantId''])
   \<and> snd (createJournalEntry rt_2024 empty_db (sale_data t_2024_03_01 lines_100_100) 7) = empty_db
   \<and> JournalEntry_validate (new_entry rt_2024 (sale_data t_2024_03_01 lines_100_100) 7 100 100) = []
   \<and> map gl_tenantId (ledgerEntries rt_2024 [] sale_entry) = [None, None]
   \<and> fst (createJournalEntry rt_2024 empty_db (sale_data t_2024_03_01 lines_100_99) 7)
     = Inl (NotBalanced 100 99)
   \<and> isl (fst (createJournalEntry rt d entryData userId))"
proof -
  have "fst (createJournalEntry rt_2024 empty_db (sale_data t_2024_03_01 lines_100_100) 7)
     = Inl (ValidationError ''GeneralLedger'' [''tenantId''])
   \<and> snd (createJournalEntry rt_2024 empty_db (sale_data t_2024_03_01 lines_100_100) 7) = empty_db
   \<and> JournalEntry_validate (new_entry rt_2024 (sale_data t_2024_03_01 lines_100_100) 7 100 100) = []
   \<and> map gl_tenantId (ledgerEntries rt_2024 [] sale_entry) = [None, None]
   \<and> fst (createJournalEntry rt_2024 empty_db (sale_data t_2024_03_01 lines_100_99) 7)
     = Inl (NotBalanced 100 99)"
    by code_simp
  with createJournalEntry_never_commits[of rt d entryData userId] show ?thesis by blast
qed

subsection \<open>Fiscal fields\<close>





subsection \<open>Reversal\<close>

text \<open>
  Claim C3 says that reversing a Posted entry produces an entry with the lines swapped, and
  that the Active balances of the touched accounts return to what they were before the
  entry was posted. In the database that holds the posted sale of 100 with its two Active
  rows, \<^verbatim>\<open>reverseJournalEntry\<close> of the sale throws: \<^verbatim>\<open>reverse\<close> builds the reversal
  with the lines swapped but passes neither \<^verbatim>\<open>tenantId\<close> nor the totals to
  \<^verbatim>\<open>JournalEntry.create\<close>, and the schema requires the three. No reversal entry is
  produced, the sale stays Posted with its rows Active, and the cash balance stays 100,
  where it was 0 before the sale. No call of \<^verbatim>\<open>reverseJournalEntry\<close> returns a
  reversal.
\<close>

theorem reverseJournalEntry_produces_no_reversal:
  "map (\<lambda>e. (je_id e, je_status e)) (journalEntries db_after_sale) = [(1, Posted)]
   \<and> map (\<lambda>l. (l_accountCode l, l_debit l, l_credit l))
        (je_lines (reversal_doc rt_2025 sale_entry 7 (Some ''entered twice'')))
     = [(''1000'', 0, 100), (''4000'', 100, 0)]
   \<and> JournalEntry_validate (reversal_doc rt_2025 sale_entry 7 (Some ''entered twice''))
     = [''tenantId'', ''totalDebit'', ''totalCredit'']
   \<and> fst (reverseJournalEntry rt_2025 db_after_sale 1 7 (Some ''entered twice''))
     = Inl (ValidationError ''JournalEntry'' [''tenantId'', ''totalDebit'', ''totalCredit''])
   \<and> snd (reverseJournalEntry rt_2025 db_after_sale 1 7 (Some ''entered twice'')) = db_after_sale
   \<and> br_balance
       (getAccountBalance
          (generalLedger (snd (reverseJournalEntry rt_2025 db_after_sale 1 7 (Some ''entered twice''))))
          ''1000'' t_2025_06_01) = 100
   \<and> br_balance (getAccountBalance [] ''1000'' t_2025_06_01) = 0
   \<and> isl (fst (reverseJournalEntry rt d entryId userId reason))"
proof -
  have "map (\<lambda>e. (je_id e, je_status e)) (journalEntries db_after_sale) = [(1, Posted)]
   \<and> map (\<lambda>l. (l_accountCode l, l_debit l, l_credit l))
        (je_lines (reversal_doc rt_2025 sale_entry 7 (Some ''entered twice'')))
     = [(''1000'', 0, 100), (''4000'', 100, 0)]
   \<and> JournalEntry_validate (reversal_doc rt_2025 sale_entry 7 (Some ''entered twice''))
     = [''tenantId'', ''totalDebit'', ''totalCredit'']
   \<and> fst (reverseJournalEntry rt_2025 db_after_sale 1 7 (Some ''entered twice''))
     = Inl (ValidationError ''JournalEntry'' [''tenantId'', ''totalDebit'', ''totalCredit''])
   \<and> snd (reverseJournalEntry rt_2025 db_after_sale 1 7 (Some ''entered twice'')) = db_after_sale
   \<and> br_balance
       (getAccountBalance
          (generalLedger (snd (reverseJournalEntry rt_2025 db_after_sale 1 7 (Some ''entered twice''))))
          ''1000'' t_2025_06_01) = 100
   \<and> br_balance (getAccountBalance [] ''1000'' t_2025_06_01) = 0"
    by code_simp
  with reverseJournalEntry_never_writes[of rt d entryId userId reason] show ?thesis by blast
qed


subsection \<open>Reports and the date of a reversal\<close>


subsection \<open>Entry numbers\<close>

text \<open>
  Claim C7 says that the sequence of an entry number is one plus the count of the entries of
  the entry's own calendar year. The second pre-save hook counts the entries dated on or
  after the first of January of that year, with no upper bound: entries of later years are
  counted too. In a collection that holds one entry, dated 2025-06-01, and none of 2024,
  \<^verbatim>\<open>JournalEntry.create\<close> of a valid sale dated 2024-03-01 assigns the number
  \<^verbatim>\<open>JE-2024-000002\<close>, where the claim gives \<^verbatim>\<open>JE-2024-000001\<close>; so it does in a process
  whose local time is UTC and in one five hours ahead.
\<close>

theorem entryNumber_counts_later_years:
  "map je_date [entry_2025] = [t_2025_06_01]
   \<and> getFullYear 0 t_2025_06_01 = 2025
   \<and> getFullYear 18000000 t_2025_06_01 = 2025
   \<and> getFullYear 0 t_2024_03_01 = 2024
   \<and> getFullYear 18000000 t_2024_03_01 = 2024
   \<and> je_date (new_entry rt_2025 (sale_data t_2024_03_01 lines_100_100) 7 100 100) = t_2024_03_01
   \<and> je_entryNumber (new_entry rt_2025 (sale_data t_2024_03_01 lines_100_100) 7 100 100) = None
   \<and> length (filter (\<lambda>e. getFullYear 0 (je_date e) = 2024) [entry_2025]) = 0
   \<and> map_sum id (\<lambda>r. (je_entryNumber (fst r), map je_entryNumber (snd r)))
       (JournalEntry_create rt_2025 [entry_2025]
          (new_entry rt_2025 (sale_data t_2024_03_01 lines_100_100) 7 100 100))
     = Inr (Some ''JE-2024-000002'', [Some ''JE-2025-000001'', Some ''JE-2024-000002''])
   \<and> map_sum id (\<lambda>r. (je_entryNumber (fst r), map je_entryNumber (snd r)))
       (JournalEntry_create rt_2025_east [entry_2025]
          (new_entry rt_2025_east (sale_data t_2024_03_01 lines_100_100) 7 100 100))
     = Inr (Some ''JE-2024-000002'', [Some ''JE-2025-000001'', Some ''JE-2024-000002''])"
  by code_simp

subsection \<open>Tenants\<close>

text \<open>
  Claim C5 says that every accounting query is scoped to one tenant, so that records of
  another tenant never change its result. No query of the ledger model or of the service
  filters by \<^verbatim>\<open>tenantId\<close>: each of \<^verbatim>\<open>getAccountBalance\<close>, \<^verbatim>\<open>getAccountLedger\<close>,
  \<^verbatim>\<open>getTrialBalance\<close>, \<^verbatim>\<open>getBalanceSheet\<close>, \<^verbatim>\<open>getProfitAndLoss\<close> and the
  previous-balance lookup gives 0 on the empty ledger and 500 once a row of tenant B is
  added, and \<^verbatim>\<open>getOrCreateAccount\<close> returns tenant B's account for the code 1000, where
  without that account it goes on to create one (and throws, the new account naming no
  tenant). The rows that \<^verbatim>\<open>postToGeneralLedger\<close> builds name no tenant at all.
\<close>

theorem queries_read_other_tenants_records:
  "br_balance (getAccountBalance [] ''1000'' t_2025_06_01) = 0
   \<and> br_balance (getAccountBalance [tenant_b_cash_row] ''1000'' t_2025_06_01) = 500
   \<and> al_closingBalance (getAccountLedger [] ''1000'' None None) = 0
   \<and> al_closingBalance (getAccountLedger [tenant_b_cash_row] ''1000'' None None) = 500
   \<and> tb_totalDebit (getTrialBalance [] t_2025_06_01) = 0
   \<and> tb_totalDebit (getTrialBalance [tenant_b_cash_row] t_2025_06_01) = 500
   \<and> bs_totalAssets (getBalanceSheet [] t_2025_06_01) = 0
   \<and> bs_totalAssets (getBalanceSheet [tenant_b_cash_row] t_2025_06_01) = 500
   \<and> pl_totalRevenue (getProfitAndLoss [] None None) = 0
   \<and> pl_totalRevenue (getProfitAndLoss [tenant_b_revenue_row] None None) = 500
   \<and> previousBalance [] ''1000'' = 0
   \<and> previousBalance [tenant_b_cash_row] ''1000'' = 500
   \<and> map_sum id ca_tenantId (fst (getOrCreateAccount rt_2024 [] ''1000'' ''Cash Account'' (Some Asset)))
       = Inl (ValidationError ''ChartOfAccount'' [''tenantId''])
   \<and> map_sum id ca_tenantId
         (fst (getOrCreateAccount rt_2024 [tenant_b_account] ''1000'' ''Cash Account'' (Some Asset)))
       = Inr (Some ''tenant-b'')
   \<and> snd (getOrCreateAccount rt_2024 [tenant_b_account] ''1000'' ''Cash Account'' (Some Asset))
       = [tenant_b_account]
   \<and> map gl_tenantId (ledgerEntries rt_2025 [tenant_b_cash_row] second_sale) = [None, None]
   \<and> map gl_balance (ledgerEntries rt_2025 [] second_sale) = [50, 50]
   \<and> map gl_balance (ledgerEntries rt_2025 [tenant_b_cash_row] second_sale) = [550, 50]"
  by code_simp

subsection \<open>Sums over the ledger, and the balance of an account\<close>

lemma sum_list_filter_split:
  "sum_list (map f (filter P xs))
     = sum_list (map f (filter (\<lambda>x. P x \<and> Q x) xs))
       + sum_list (map f (filter (\<lambda>x. P x \<and> \<not> Q x) xs))" for f :: "'a \<Rightarrow> amount"
  by (induction xs) simp_all

lemma sum_list_insort_key:
  "sum_list (map f (insort_key k x xs)) = f x + sum_list (map f xs)" for f :: "'a \<Rightarrow> amount"
  by (induction xs) simp_all

lemma sum_list_sort_key:
  "sum_list (map f (sort_key k xs)) = sum_list (map f xs)" for f :: "'a \<Rightarrow> amount"
  by (induction xs) (simp_all add: sum_list_insort_key)

lemma group_rows_one_key:
  assumes "\<forall>x \<in> set xs. key x = k"
  shows "group_rows key xs = (case xs of [] \<Rightarrow> [] | r # rs \<Rightarrow> [(k, r, xs)])"
proof (cases xs)
  case Nil
  then show ?thesis by simp
next
  case (Cons r rs)
  with assms have all: "\<forall>x \<in> set rs. key x = key r" and k: "key r = k" by simp_all
  from all have "filter (\<lambda>x. key x = key r) rs = rs" "filter (\<lambda>x. key x \<noteq> key r) rs = []"
    by (simp_all add: filter_empty_conv)
  with Cons k show ?thesis by simp
qed

lemma getAccountBalance_of_rows:
  assumes "\<forall>x \<in> set m. gl_accountCode x = code"
  shows "(case map (\<lambda>(code, first, rows).
                          \<lparr> br_accountName = Some (gl_accountName first),
                            br_accountType = Some (gl_accountType first),
                            br_totalDebit = sum_list (map gl_debit rows),
                            br_totalCredit = sum_list (map gl_credit rows),
                            br_balance = sum_list (map gl_debit rows) - sum_list (map gl_credit rows) \<rparr>)
                     (group_rows gl_accountCode m) of
           r0 # rest \<Rightarrow> r0
         | [] \<Rightarrow> \<lparr> br_accountName = None, br_accountType = None,
                   br_totalDebit = 0, br_totalCredit = 0, br_balance = 0 \<rparr>)
       = \<lparr> br_accountName = (case m of [] \<Rightarrow> None | r # rs \<Rightarrow> Some (gl_accountName r)),
           br_accountType = (case m of [] \<Rightarrow> None | r # rs \<Rightarrow> Some (gl_accountType r)),
           br_totalDebit = sum_list (map gl_debit m),
           br_totalCredit = sum_list (map gl_credit m),
           br_balance = sum_list (map gl_debit m) - sum_list (map gl_credit m) \<rparr>"
  unfolding group_rows_one_key[OF assms] by (cases m) simp_all

lemma getAccountBalance_sums:
  "br_totalDebit (getAccountBalance ledger code asOf)
     = sum_list (map gl_debit (filter (\<lambda>r. gl_accountCode r = code \<and> gl_date r \<le> asOf
                                           \<and> gl_status r = Active) ledger))
   \<and> br_totalCredit (getAccountBalance ledger code asOf)
     = sum_list (map gl_credit (filter (\<lambda>r. gl_accountCode r = code \<and> gl_date r \<le> asOf
                                           \<and> gl_status r = Active) ledger))
   \<and> br_balance (getAccountBalance ledger code asOf)
     = br_totalDebit (getAccountBalance ledger code asOf)
       - br_totalCredit (getAccountBalance ledger code asOf)"
proof -
  let ?m = "filter (\<lambda>r. gl_accountCode r = code \<and> gl_date r \<le> asOf \<and> gl_status r = Active) ledger"
  have "\<forall>x \<in> set ?m. gl_accountCode x = code" by simp
  from getAccountBalance_of_rows[OF this] show ?thesis
    unfolding getAccountBalance_def Let_def by simp
qed

lemma sum_list_diff:
  "sum_list (map f xs) - sum_list (map g xs) = sum_list (map (\<lambda>x. f x - g x) xs)"
  for f :: "'a \<Rightarrow> amount"
  by (induction xs) simp_all

lemma getAccountBalance_balance:
  "br_balance (getAccountBalance ledger code asOf)
     = (\<Sum>r\<leftarrow>filter (\<lambda>r. gl_accountCode r = code \<and> gl_date r \<le> asOf \<and> gl_status r = Active) ledger.
          gl_debit r - gl_credit r)"
  using getAccountBalance_sums[of ledger code asOf] by (simp add: sum_list_diff)

lemma ledgerWithBalance_final:
  "snd (ledgerWithBalance b xs) = b + (\<Sum>r\<leftarrow>xs. gl_debit r - gl_credit r)"
  by (induction xs arbitrary: b) (simp_all add: Let_def case_prod_beta)

lemma getAccountLedger_closing:
  "al_closingBalance (getAccountLedger ledger code startDate endDate)
     = al_openingBalance (getAccountLedger ledger code startDate endDate)
       + (\<Sum>r\<leftarrow>filter (\<lambda>r. gl_accountCode r = code \<and> gl_status r = Active
                          \<and> (case startDate of None \<Rightarrow> True | Some s \<Rightarrow> s \<le> gl_date r)
                          \<and> (case endDate of None \<Rightarrow> True | Some e \<Rightarrow> gl_date r \<le> e)) ledger.
            gl_debit r - gl_credit r)"
  by (simp add: getAccountLedger_def Let_def case_prod_beta ledgerWithBalance_final
        sum_list_sort_key)

lemma getAccountLedger_opening:
  "al_openingBalance (getAccountLedger ledger code startDate endDate)
     = (case startDate of None \<Rightarrow> 0 | Some s \<Rightarrow> br_balance (getAccountBalance ledger code s))"
  by (simp add: getAccountLedger_def Let_def case_prod_beta)

subsection \<open>The boundary row of an account ledger\<close>

text \<open>
  Claim C9, as amended. When \<^verbatim>\<open>getAccountLedger\<close> is called with a start date \<open>s\<close> and an
  end date \<open>e\<close> with \<open>s \<le> e\<close>, the opening balance is the account's balance through \<open>s\<close>,
  and the closing balance is the account's aggregate balance through \<open>e\<close> plus the sum of
  debit minus credit over the Active rows dated exactly \<open>s\<close>: those rows are counted in the
  opening balance and again in the walk. The closing balance differs from the aggregate
  balance through \<open>e\<close> exactly when that sum is not zero; it does so in particular when the
  account has exactly one such row and its debit minus credit is not zero.
\<close>

theorem getAccountLedger_boundary_double_count:
  assumes "s \<le> e"
  shows "al_openingBalance (getAccountLedger ledger code (Some s) (Some e))
           = br_balance (getAccountBalance ledger code s)
     \<and> al_closingBalance (getAccountLedger ledger code (Some s) (Some e))
           = br_balance (getAccountBalance ledger code e)
             + (\<Sum>r\<leftarrow>filter (\<lambda>r. gl_accountCode r = code \<and> gl_status r = Active \<and> gl_date r = s) ledger.
                  gl_debit r - gl_credit r)
     \<and> ((al_closingBalance (getAccountLedger ledger code (Some s) (Some e))
            \<noteq> br_balance (getAccountBalance ledger code e))
          = ((\<Sum>r\<leftarrow>filter (\<lambda>r. gl_accountCode r = code \<and> gl_status r = Active \<and> gl_date r = s) ledger.
                  gl_debit r - gl_credit r) \<noteq> 0))
     \<and> (\<forall>b. filter (\<lambda>r. gl_accountCode r = code \<and> gl_status r = Active \<and> gl_date r = s) ledger = [b]
              \<and> gl_debit b - gl_credit b \<noteq> 0
            \<longrightarrow> al_closingBalance (getAccountLedger ledger code (Some s) (Some e))
                  \<noteq> br_balance (getAccountBalance ledger code e))"
proof -
  let ?net = "\<lambda>r. gl_debit r - gl_credit r"
  let ?A = "\<lambda>r. gl_accountCode r = code \<and> gl_status r = Active"
  let ?boundary = "\<Sum>r\<leftarrow>filter (\<lambda>r. gl_accountCode r = code \<and> gl_status r = Active \<and> gl_date r = s) ledger. ?net r"
  let ?before = "\<Sum>r\<leftarrow>filter (\<lambda>r. ?A r \<and> gl_date r < s) ledger. ?net r"
  let ?within = "\<Sum>r\<leftarrow>filter (\<lambda>r. ?A r \<and> s \<le> gl_date r \<and> gl_date r \<le> e) ledger. ?net r"
  have opening_eq: "al_openingBalance (getAccountLedger ledger code (Some s) (Some e))
           = br_balance (getAccountBalance ledger code s)"
    by (simp add: getAccountLedger_opening)
  have upto_s: "br_balance (getAccountBalance ledger code s) = ?before + ?boundary"
  proof -
    have "br_balance (getAccountBalance ledger code s)
            = (\<Sum>r\<leftarrow>filter (\<lambda>r. ?A r \<and> gl_date r \<le> s) ledger. ?net r)"
      unfolding getAccountBalance_balance by (rule arg_cong[where f="\<lambda>p. sum_list (map ?net (filter p ledger))"]) auto
    also have "\<dots> = (\<Sum>r\<leftarrow>filter (\<lambda>r. (?A r \<and> gl_date r \<le> s) \<and> gl_date r < s) ledger. ?net r)
                   + (\<Sum>r\<leftarrow>filter (\<lambda>r. (?A r \<and> gl_date r \<le> s) \<and> \<not> gl_date r < s) ledger. ?net r)"
      by (rule sum_list_filter_split)
    also have "(\<lambda>r. (?A r \<and> gl_date r \<le> s) \<and> gl_date r < s) = (\<lambda>r. ?A r \<and> gl_date r < s)"
      by auto
    also have "(\<lambda>r. (?A r \<and> gl_date r \<le> s) \<and> \<not> gl_date r < s)
                 = (\<lambda>r. gl_accountCode r = code \<and> gl_status r = Active \<and> gl_date r = s)"
      by auto
    finally show ?thesis .
  qed
  have upto_e: "br_balance (getAccountBalance ledger code e) = ?before + ?within"
  proof -
    have "br_balance (getAccountBalance ledger code e)
            = (\<Sum>r\<leftarrow>filter (\<lambda>r. ?A r \<and> gl_date r \<le> e) ledger. ?net r)"
      unfolding getAccountBalance_balance by (rule arg_cong[where f="\<lambda>p. sum_list (map ?net (filter p ledger))"]) auto
    also have "\<dots> = (\<Sum>r\<leftarrow>filter (\<lambda>r. (?A r \<and> gl_date r \<le> e) \<and> gl_date r < s) ledger. ?net r)
                   + (\<Sum>r\<leftarrow>filter (\<lambda>r. (?A r \<and> gl_date r \<le> e) \<and> \<not> gl_date r < s) ledger. ?net r)"
      by (rule sum_list_filter_split)
    also have "(\<lambda>r. (?A r \<and> gl_date r \<le> e) \<and> gl_date r < s) = (\<lambda>r. ?A r \<and> gl_date r < s)"
      using assms by auto
    also have "(\<lambda>r. (?A r \<and> gl_date r \<le> e) \<and> \<not> gl_date r < s)
                 = (\<lambda>r. ?A r \<and> s \<le> gl_date r \<and> gl_date r \<le> e)"
      by auto
    finally show ?thesis .
  qed
  have "al_closingBalance (getAccountLedger ledger code (Some s) (Some e))
          = br_balance (getAccountBalance ledger code s) + ?within"
    unfolding getAccountLedger_closing opening_eq
    by (simp add: conj_ac)
  then have closing_eq: "al_closingBalance (getAccountLedger ledger code (Some s) (Some e))
           = br_balance (getAccountBalance ledger code e) + ?boundary"
    using upto_s upto_e by simp
  show ?thesis
  proof (intro conjI allI impI)
    show "al_openingBalance (getAccountLedger ledger code (Some s) (Some e))
           = br_balance (getAccountBalance ledger code s)" by (rule opening_eq)
    show "al_closingBalance (getAccountLedger ledger code (Some s) (Some e))
           = br_balance (getAccountBalance ledger code e) + ?boundary" by (rule closing_eq)
    show "(al_closingBalance (getAccountLedger ledger code (Some s) (Some e))
            \<noteq> br_balance (getAccountBalance ledger code e)) = (?boundary \<noteq> 0)"
      unfolding closing_eq by simp
    fix b
    assume "filter (\<lambda>r. gl_accountCode r = code \<and> gl_status r = Active \<and> gl_date r = s) ledger = [b]
              \<and> gl_debit b - gl_credit b \<noteq> 0"
    then have "?boundary \<noteq> 0" by simp
    then show "al_closingBalance (getAccountLedger ledger code (Some s) (Some e))
                  \<noteq> br_balance (getAccountBalance ledger code e)"
      unfolding closing_eq by simp
  qed
qed

theorem getAccountLedger_boundary_double_count_witness:
  "t_2024_03_01 \<le> t_2025_06_01
   \<and> al_closingBalance
       (getAccountLedger (generalLedger db_after_sale) ''1000'' (Some t_2024_03_01) (Some t_2025_06_01))
     = 200
   \<and> br_balance (getAccountBalance (generalLedger db_after_sale) ''1000'' t_2025_06_01) = 100"
proof -
  have le: "t_2024_03_01 \<le> t_2025_06_01" by (simp add: t_2024_03_01_def t_2025_06_01_def)
  have b: "br_balance (getAccountBalance (generalLedger db_after_sale) ''1000'' t_2025_06_01) = 100"
    by code_simp
  have s: "(\<Sum>r\<leftarrow>filter (\<lambda>r. gl_accountCode r = ''1000'' \<and> gl_status r = Active \<and> gl_date r = t_2024_03_01)
                   (generalLedger db_after_sale). gl_debit r - gl_credit r) = 100"
    by code_simp
  from getAccountLedger_boundary_double_count[OF le, of "generalLedger db_after_sale" "''1000''"]
  show ?thesis using le b s by simp
qed

text \<open>The claim as it was stated promises a difference for every account that has a
  boundary row with a nonzero debit minus credit. The cash account of a sale of 5 and its
  refund, both dated the start date, has two such rows (5 and -5), and its closing balance
  equals its aggregate balance.\<close>

theorem getAccountLedger_boundary_counterexample:
  "map (\<lambda>r. (gl_date r, gl_status r, gl_debit r - gl_credit r))
       (filter (\<lambda>r. gl_accountCode r = ''1000'') (generalLedger db_sale_refund))
     = [(t_2024_03_01, Active, 5), (t_2024_03_01, Active, - 5)]
   \<and> al_closingBalance
       (getAccountLedger (generalLedger db_sale_refund) ''1000'' (Some t_2024_03_01) (Some t_2025_06_01))
     = br_balance (getAccountBalance (generalLedger db_sale_refund) ''1000'' t_2025_06_01)"
  by code_simp

subsection \<open>Groups of rows\<close>



subsection \<open>The trial balance\<close>










end
